theory Spec2Isabelle
  imports Main
begin

section \<open>The host object tree read and written by setgpu.py\<close>

text \<open>
  The script holds no data of its own: every statement reads or writes an attribute of the
  host application's objects (\<^verbatim>\<open>bpy.context\<close>). The model keeps one record per host
  object the script touches. An attribute the script reads or writes directly is a plain
  field. An attribute the script probes by name (\<^verbatim>\<open>hasattr\<close>, or \<^verbatim>\<open>getattr\<close> with a
  default) is an \<open>option\<close> field: \<open>None\<close> says that this host version does not define the
  attribute, \<open>Some v\<close> that it does and holds \<open>v\<close>. The scene-level
  \<^verbatim>\<open>use_denoising\<close> is of the second kind, although the configurator also assigns it
  without a probe: the detector reads it with \<^verbatim>\<open>getattr(scene.cycles, 'use_denoising', False)\<close>.

  A function of the script becomes a function from the host state to an outcome (the value
  returned, or the exception raised) and the host state it leaves behind.

  Output of \<^verbatim>\<open>print\<close> is the field \<open>stdout\<close>, one string per line, oldest first.
\<close>

datatype error = AttributeError string | KeyError string

datatype 'a outcome = Returned 'a | Raised error

text \<open>One entry of \<^verbatim>\<open>prefs.devices\<close>.\<close>

record compute_device =
  dev_name :: string
  dev_type :: string
  dev_use :: bool

text \<open>\<^verbatim>\<open>bpy.context.preferences.addons['cycles'].preferences\<close>.\<close>

record cycles_preferences =
  compute_device_type :: string
  devices :: "compute_device list"

text \<open>\<^verbatim>\<open>scene.render\<close>.\<close>

record render_settings =
  engine :: string
  use_compositor_gpu :: "bool option"

text \<open>\<^verbatim>\<open>scene.cycles\<close>.\<close>

record cycles_settings =
  device :: string
  use_denoising :: "bool option"
  denoiser :: string
  denoising_store_passes :: bool
  denoising_prefilter :: string
  denoising_quality :: string
  use_denoising_gpu :: "bool option"
  denoising_use_gpu :: "bool option"
  use_auto_tile :: "bool option"
  tile_x :: int
  tile_y :: int

text \<open>One node of \<^verbatim>\<open>scene.node_tree.nodes\<close>.\<close>

record node =
  node_type :: string
  use_gpu :: "bool option"
  use_hdr :: "bool option"

text \<open>
  \<^verbatim>\<open>bpy.context.scene\<close>. \<open>node_tree\<close> is \<open>None\<close> for Python's \<^verbatim>\<open>None\<close> (no tree, falsy)
  and \<open>Some nodes\<close> for a tree object (truthy) with that node collection.
\<close>

record scene_data =
  render :: render_settings
  cycles :: cycles_settings
  use_nodes :: bool
  node_tree :: "node list option"

text \<open>\<^verbatim>\<open>bpy.context.view_layer.cycles\<close> and \<^verbatim>\<open>bpy.context.view_layer\<close>.\<close>

record view_layer_cycles =
  vl_use_denoising :: "bool option"

record view_layer_data =
  vl_cycles :: view_layer_cycles
  use_pass_normal :: "bool option"
  use_pass_diffuse_color :: "bool option"

text \<open>\<^verbatim>\<open>bpy.context.preferences.system\<close>.\<close>

record system_preferences =
  compositor_device :: "string option"

text \<open>
  The whole host state. \<open>addons\<close> is the set of keys of \<^verbatim>\<open>preferences.addons\<close>; the
  subscript \<^verbatim>\<open>addons['cycles']\<close> raises \<^verbatim>\<open>KeyError\<close> when the key is not registered and
  otherwise refers to the object held in \<open>cycles_prefs\<close>.
\<close>

record host =
  scene :: scene_data
  view_layer :: view_layer_data
  addons :: "string set"
  cycles_prefs :: cycles_preferences
  system :: system_preferences
  stdout :: "string list"

section \<open>Python primitives\<close>

definition hasattr :: "'a option \<Rightarrow> bool" where
  "hasattr a = (a \<noteq> None)"

definition getattr_default :: "'a option \<Rightarrow> 'a \<Rightarrow> 'a" where
  "getattr_default a d = (case a of None \<Rightarrow> d | Some v \<Rightarrow> v)"

text \<open>
  An assignment \<^verbatim>\<open>obj.name = v\<close> that no probe guards, to an attribute that may be absent.
  What the host does with a write to an attribute it does not define is the host's
  business, not the script's: \<open>strict\<close> hosts raise \<^verbatim>\<open>AttributeError\<close>, the others
  create the attribute. The functions below take \<open>strict\<close> as a parameter.
\<close>

definition setattr_unprobed :: "bool \<Rightarrow> string \<Rightarrow> 'a option \<Rightarrow> 'a \<Rightarrow> ('a option) outcome" where
  "setattr_unprobed strict name old v =
     (if old = None \<and> strict then Raised (AttributeError name) else Returned (Some v))"

definition py_print :: "string \<Rightarrow> host \<Rightarrow> host" where
  "py_print line h = h\<lparr>stdout := stdout h @ [line]\<rparr>"

text \<open>Truth value of \<^verbatim>\<open>gpu\<close>, which is \<^verbatim>\<open>None\<close> or a string.\<close>

definition truthy :: "string option \<Rightarrow> bool" where
  "truthy g = (case g of None \<Rightarrow> False | Some s \<Rightarrow> s \<noteq> [])"

definition str_of :: "string option \<Rightarrow> string" where
  "str_of g = (case g of None \<Rightarrow> ''None'' | Some s \<Rightarrow> s)"

text \<open>
  The text printed for an exception, \<^verbatim>\<open>f"{e}"\<close>. The wording of the message is the
  host's; the model takes the name of the attribute or key that was not found.
\<close>

definition message :: "error \<Rightarrow> string" where
  "message e = (case e of AttributeError a \<Rightarrow> a | KeyError k \<Rightarrow> k)"

section \<open>Device selector\<close>

text \<open>
  \<^verbatim>\<open>prefs.refresh_devices()\<close> is a host method: it re-enumerates the hardware and
  updates \<^verbatim>\<open>prefs.devices\<close>. Its effect on the collection is the parameter \<open>rd\<close>.
\<close>

definition refresh_devices ::
  "(compute_device list \<Rightarrow> compute_device list) \<Rightarrow> host \<Rightarrow> host" where
  "refresh_devices rd h = h\<lparr>cycles_prefs := (cycles_prefs h)\<lparr>devices := rd (devices (cycles_prefs h))\<rparr>\<rparr>"

definition test_optix_availability ::
  "(compute_device list \<Rightarrow> compute_device list) \<Rightarrow> host \<Rightarrow> bool outcome \<times> host" where
  "test_optix_availability rd h =
     (if ''cycles'' \<notin> addons h then (Raised (KeyError ''cycles''), h)
      else
        let h1 = refresh_devices rd h
        in (Returned (list_ex (\<lambda>d. dev_type d = ''OPTIX'') (devices (cycles_prefs h1))), h1))"

text \<open>Lines 21-22: \<^verbatim>\<open>for d in prefs.devices: d.use = (d.type == 'OPTIX')\<close>.\<close>

fun enable_optix :: "compute_device list \<Rightarrow> compute_device list" where
  "enable_optix [] = []"
| "enable_optix (d # ds) = d\<lparr>dev_use := (dev_type d = ''OPTIX'')\<rparr> # enable_optix ds"

text \<open>Lines 26-32: the loop of the fallback branch, with its flag \<^verbatim>\<open>found\<close>.\<close>

fun enable_cuda :: "compute_device list \<Rightarrow> bool \<Rightarrow> compute_device list \<times> bool" where
  "enable_cuda [] found = ([], found)"
| "enable_cuda (d # ds) found =
     (if dev_type d = ''CUDA''
      then (case enable_cuda ds True of (ds', found') \<Rightarrow> (d\<lparr>dev_use := True\<rparr> # ds', found'))
      else (case enable_cuda ds found of (ds', found') \<Rightarrow> (d\<lparr>dev_use := False\<rparr> # ds', found')))"

definition setup_gpu_rendering ::
  "(compute_device list \<Rightarrow> compute_device list) \<Rightarrow> host \<Rightarrow> string option outcome \<times> host" where
  "setup_gpu_rendering rd h =
     (if ''cycles'' \<notin> addons h then (Raised (KeyError ''cycles''), h)
      else
        let h1 = refresh_devices rd h;
            h2 = scene_update (render_update (engine_update (\<lambda>_. ''CYCLES''))) h1;
            h3 = scene_update (cycles_update (device_update (\<lambda>_. ''GPU''))) h2
        in case test_optix_availability rd h3 of
             (Raised e, h4) \<Rightarrow> (Raised e, h4)
           | (Returned optix, h4) \<Rightarrow>
               if optix then
                 let h5 = cycles_prefs_update (compute_device_type_update (\<lambda>_. ''OPTIX'')) h4;
                     h6 = cycles_prefs_update (devices_update enable_optix) h5
                 in (Returned (Some ''OPTIX''), h6)
               else
                 let h5 = cycles_prefs_update (compute_device_type_update (\<lambda>_. ''CUDA'')) h4
                 in case enable_cuda (devices (cycles_prefs h5)) False of
                      (ds, found) \<Rightarrow>
                        (Returned (if found then Some ''CUDA'' else None),
                         cycles_prefs_update (devices_update (\<lambda>_. ds)) h5))"

section \<open>Denoising detector\<close>

definition check_denoising_enabled :: "host \<Rightarrow> bool" where
  "check_denoising_enabled h =
     (if getattr_default (use_denoising (cycles (scene h))) False then True
      else if (case vl_use_denoising (vl_cycles (view_layer h)) of
                 None \<Rightarrow> False
               | Some flag \<Rightarrow> flag) then True
      else if use_nodes (scene h) then
        (case node_tree (scene h) of
           None \<Rightarrow> False
         | Some nodes \<Rightarrow> list_ex (\<lambda>n. node_type n = ''DENOISE'') nodes)
      else False)"

section \<open>Denoiser configurator\<close>

text \<open>Lines 82-86: the body of the loop over the nodes.\<close>

definition configure_node :: "node \<Rightarrow> node" where
  "configure_node n =
     (if node_type n = ''DENOISE'' then
        let n1 = (if hasattr (use_gpu n) then n\<lparr>use_gpu := Some True\<rparr> else n);
            n2 = (if hasattr (use_hdr n1) then n1\<lparr>use_hdr := Some True\<rparr> else n1)
        in n2
      else n)"

fun configure_nodes :: "node list \<Rightarrow> node list" where
  "configure_nodes [] = []"
| "configure_nodes (n # ns) = configure_node n # configure_nodes ns"

definition setup_oidn_denoising :: "bool \<Rightarrow> host \<Rightarrow> unit outcome \<times> host" where
  "setup_oidn_denoising strict h =
     (case setattr_unprobed strict ''use_denoising'' (use_denoising (cycles (scene h))) True of
        Raised e \<Rightarrow> (Raised e, h)
      | Returned ud \<Rightarrow>
          let h1 = scene_update (cycles_update (use_denoising_update (\<lambda>_. ud))) h;
              h2 = scene_update (cycles_update (denoiser_update (\<lambda>_. ''OPENIMAGEDENOISE''))) h1;
              h3 = scene_update (cycles_update (denoising_store_passes_update (\<lambda>_. True))) h2;
              h4 = scene_update (cycles_update (denoising_prefilter_update (\<lambda>_. ''ACCURATE''))) h3;
              h5 = scene_update (cycles_update (denoising_quality_update (\<lambda>_. ''HIGH''))) h4;
              h6 = (if hasattr (use_pass_normal (view_layer h5))
                    then view_layer_update (use_pass_normal_update (\<lambda>_. Some True)) h5 else h5);
              h7 = (if hasattr (use_pass_diffuse_color (view_layer h6))
                    then view_layer_update (use_pass_diffuse_color_update (\<lambda>_. Some True)) h6 else h6);
              h8 = (if hasattr (use_denoising_gpu (cycles (scene h7)))
                    then scene_update (cycles_update (use_denoising_gpu_update (\<lambda>_. Some True))) h7 else h7);
              h9 = (if hasattr (denoising_use_gpu (cycles (scene h8)))
                    then scene_update (cycles_update (denoising_use_gpu_update (\<lambda>_. Some True))) h8 else h8);
              h10 = (if hasattr (use_compositor_gpu (render (scene h9)))
                     then scene_update (render_update (use_compositor_gpu_update (\<lambda>_. Some True))) h9 else h9);
              h11 = (if hasattr (compositor_device (system h10))
                     then system_update (compositor_device_update (\<lambda>_. Some ''GPU'')) h10 else h10);
              h12 = (if use_nodes (scene h11) \<and> node_tree (scene h11) \<noteq> None
                     then scene_update (node_tree_update (map_option configure_nodes)) h11 else h11)
          in (Returned (), h12))"

section \<open>Orchestrator and entry point\<close>

text \<open>Lines 125-127: the loop printing the enabled devices.\<close>

fun print_enabled :: "compute_device list \<Rightarrow> host \<Rightarrow> host" where
  "print_enabled [] h = h"
| "print_enabled (d # ds) h =
     (if dev_use d
      then print_enabled ds (py_print (''  - '' @ dev_name d @ '' ('' @ dev_type d @ '')'') h)
      else print_enabled ds h)"

definition setup_gpu_and_denoiser ::
  "(compute_device list \<Rightarrow> compute_device list) \<Rightarrow> bool \<Rightarrow> host \<Rightarrow> unit outcome \<times> host" where
  "setup_gpu_and_denoiser rd strict h =
     (if engine (render (scene h)) \<noteq> ''CYCLES''
      then (Returned (), py_print ''Cycles not active, skipping setup.'' h)
      else
        case setup_gpu_rendering rd (py_print ''Configuring GPU rendering...'' h) of
          (Raised e, h1) \<Rightarrow> (Raised e, h1)
        | (Returned gpu, h1) \<Rightarrow>
            if \<not> truthy gpu
            then (Returned (), py_print ''No GPU devices found, aborting.'' h1)
            else
              let h2 = py_print (''GPU setup complete: '' @ str_of gpu) h1
              in if \<not> check_denoising_enabled h2
                 then (Returned (), py_print ''Denoising not enabled in file; skipping denoiser setup.'' h2)
                 else
                   (case setup_oidn_denoising strict
                          (py_print ''Denoising enabled: forcing OIDN configuration...'' h2) of
                     (Raised e, h3) \<Rightarrow> (Raised e, h3)
                   | (Returned u, h3) \<Rightarrow>
                       let h4 = (if hasattr (use_auto_tile (cycles (scene h3)))
                                 then
                                   scene_update (cycles_update (tile_y_update (\<lambda>_. 256)))
                                     (scene_update (cycles_update (tile_x_update (\<lambda>_. 256)))
                                       (scene_update (cycles_update (use_auto_tile_update (\<lambda>_. Some False))) h3))
                                 else h3)
                       in if ''cycles'' \<notin> addons h4 then (Raised (KeyError ''cycles''), h4)
                          else
                            let h5 = py_print ''=== Final Configuration ==='' h4;
                                h6 = py_print (''Compute Type: '' @ compute_device_type (cycles_prefs h5)) h5;
                                h7 = py_print (''Render Device: '' @ device (cycles (scene h6))) h6;
                                h8 = py_print (''Denoiser: '' @ denoiser (cycles (scene h7)) @ '' (GPU)'') h7;
                                h9 = py_print ''Enabled Devices:'' h8
                            in (Returned (), print_enabled (devices (cycles_prefs h9)) h9)))"

text \<open>
  Lines 130-136. The result is the final host state and the exit status of the process:
  \<^verbatim>\<open>sys.exit(1)\<close> in the handler, 0 when the script runs to its end.
\<close>

definition main ::
  "(compute_device list \<Rightarrow> compute_device list) \<Rightarrow> bool \<Rightarrow> host \<Rightarrow> host \<times> nat" where
  "main rd strict h =
     (case setup_gpu_and_denoiser rd strict h of
        (Returned u, h1) \<Rightarrow> (py_print ''Setup completed successfully.'' h1, 0)
      | (Raised e, h1) \<Rightarrow> (py_print (''Error: '' @ message e) h1, 1))"

section \<open>Concrete host states\<close>

text \<open>
  A small family of host states on which the functions are evaluated: the render engine,
  the device list, the scene-level \<^verbatim>\<open>use_denoising\<close> attribute, the scene's
  \<^verbatim>\<open>use_nodes\<close> flag and the \<^verbatim>\<open>use_auto_tile\<close> attribute vary; the node tree always holds
  one denoise node.
\<close>

definition cpu_device :: compute_device where
  "cpu_device = \<lparr>dev_name = ''Ryzen 9'', dev_type = ''CPU'', dev_use = True\<rparr>"

definition cuda_device :: compute_device where
  "cuda_device = \<lparr>dev_name = ''RTX 3090'', dev_type = ''CUDA'', dev_use = False\<rparr>"

definition optix_device :: compute_device where
  "optix_device = \<lparr>dev_name = ''RTX 3090'', dev_type = ''OPTIX'', dev_use = False\<rparr>"

definition denoise_node :: node where
  "denoise_node = \<lparr>node_type = ''DENOISE'', use_gpu = None, use_hdr = Some False\<rparr>"

definition example_host ::
  "string \<Rightarrow> compute_device list \<Rightarrow> bool option \<Rightarrow> bool \<Rightarrow> bool option \<Rightarrow> host" where
  "example_host eng ds den nodes_on tile =
     \<lparr>scene = \<lparr>render = \<lparr>engine = eng, use_compositor_gpu = None\<rparr>,
               cycles = \<lparr>device = ''CPU'', use_denoising = den, denoiser = ''OPTIX'',
                         denoising_store_passes = False, denoising_prefilter = ''FAST'',
                         denoising_quality = ''BALANCED'', use_denoising_gpu = None,
                         denoising_use_gpu = Some False, use_auto_tile = tile,
                         tile_x = 64, tile_y = 64\<rparr>,
               use_nodes = nodes_on,
               node_tree = Some [denoise_node]\<rparr>,
      view_layer = \<lparr>vl_cycles = \<lparr>vl_use_denoising = None\<rparr>,
                    use_pass_normal = Some False, use_pass_diffuse_color = None\<rparr>,
      addons = {''cycles''},
      cycles_prefs = \<lparr>compute_device_type = ''NONE'', devices = ds\<rparr>,
      system = \<lparr>compositor_device = None\<rparr>,
      stdout = []\<rparr>"

lemmas example_defs = example_host_def cpu_device_def cuda_device_def optix_device_def
  denoise_node_def

section \<open>The device and node iterations as maps\<close>

lemma enable_optix_map:
  "enable_optix ds = map (\<lambda>d. d\<lparr>dev_use := (dev_type d = ''OPTIX'')\<rparr>) ds"
  by (induction ds) simp_all

lemma enable_cuda_fst:
  "fst (enable_cuda ds found) = map (\<lambda>d. d\<lparr>dev_use := (dev_type d = ''CUDA'')\<rparr>) ds"
  by (induction ds arbitrary: found) (simp_all add: split_beta)

lemma enable_cuda_snd:
  "snd (enable_cuda ds found) = (found \<or> list_ex (\<lambda>d. dev_type d = ''CUDA'') ds)"
  by (induction ds arbitrary: found) (simp_all add: split_beta)

lemma configure_nodes_map: "configure_nodes ns = map configure_node ns"
  by (induction ns) simp_all


lemma setup_gpu_rendering_optix:
  assumes "''cycles'' \<in> addons h"
    and "list_ex (\<lambda>d. dev_type d = ''OPTIX'') (rd (rd (devices (cycles_prefs h))))"
  shows "setup_gpu_rendering rd h =
     (Returned (Some ''OPTIX''),
      h\<lparr>scene := (scene h)\<lparr>render := (render (scene h))\<lparr>engine := ''CYCLES''\<rparr>,
                           cycles := (cycles (scene h))\<lparr>device := ''GPU''\<rparr>\<rparr>,
        cycles_prefs := (cycles_prefs h)\<lparr>compute_device_type := ''OPTIX'',
           devices := enable_optix (rd (rd (devices (cycles_prefs h))))\<rparr>\<rparr>)"
  using assms
  by (simp add: setup_gpu_rendering_def test_optix_availability_def refresh_devices_def Let_def)

lemma setup_gpu_rendering_fallback:
  assumes "''cycles'' \<in> addons h"
    and "\<not> list_ex (\<lambda>d. dev_type d = ''OPTIX'') (rd (rd (devices (cycles_prefs h))))"
  shows "setup_gpu_rendering rd h =
     (Returned (if snd (enable_cuda (rd (rd (devices (cycles_prefs h)))) False) then Some ''CUDA'' else None),
      h\<lparr>scene := (scene h)\<lparr>render := (render (scene h))\<lparr>engine := ''CYCLES''\<rparr>,
                           cycles := (cycles (scene h))\<lparr>device := ''GPU''\<rparr>\<rparr>,
        cycles_prefs := (cycles_prefs h)\<lparr>compute_device_type := ''CUDA'',
           devices := fst (enable_cuda (rd (rd (devices (cycles_prefs h)))) False)\<rparr>\<rparr>)"
  using assms
  by (simp add: setup_gpu_rendering_def test_optix_availability_def refresh_devices_def Let_def split_beta)

section \<open>The configurator, write by write\<close>

text \<open>
  A probed write \<^verbatim>\<open>if hasattr(x, 'a'): x.a = v\<close> leaves an absent attribute absent and
  sets a present one: on the \<open>option\<close> field it is \<open>map_option (\<lambda>_. v)\<close>.
\<close>

lemma probe_use_pass_normal:
  "(if hasattr (use_pass_normal (view_layer h))
    then view_layer_update (use_pass_normal_update (\<lambda>_. Some True)) h else h)
   = view_layer_update (use_pass_normal_update (map_option (\<lambda>_. True))) h"
  by (cases h; cases "view_layer h"; cases "use_pass_normal (view_layer h)")
     (simp_all add: hasattr_def)

lemma probe_use_pass_diffuse_color:
  "(if hasattr (use_pass_diffuse_color (view_layer h))
    then view_layer_update (use_pass_diffuse_color_update (\<lambda>_. Some True)) h else h)
   = view_layer_update (use_pass_diffuse_color_update (map_option (\<lambda>_. True))) h"
  by (cases h; cases "view_layer h"; cases "use_pass_diffuse_color (view_layer h)")
     (simp_all add: hasattr_def)

lemma probe_use_denoising_gpu:
  "(if hasattr (use_denoising_gpu (cycles (scene h)))
    then scene_update (cycles_update (use_denoising_gpu_update (\<lambda>_. Some True))) h else h)
   = scene_update (cycles_update (use_denoising_gpu_update (map_option (\<lambda>_. True)))) h"
  by (cases h; cases "scene h"; cases "cycles (scene h)";
      cases "use_denoising_gpu (cycles (scene h))")
     (simp_all add: hasattr_def)

lemma probe_denoising_use_gpu:
  "(if hasattr (denoising_use_gpu (cycles (scene h)))
    then scene_update (cycles_update (denoising_use_gpu_update (\<lambda>_. Some True))) h else h)
   = scene_update (cycles_update (denoising_use_gpu_update (map_option (\<lambda>_. True)))) h"
  by (cases h; cases "scene h"; cases "cycles (scene h)";
      cases "denoising_use_gpu (cycles (scene h))")
     (simp_all add: hasattr_def)

lemma probe_use_compositor_gpu:
  "(if hasattr (use_compositor_gpu (render (scene h)))
    then scene_update (render_update (use_compositor_gpu_update (\<lambda>_. Some True))) h else h)
   = scene_update (render_update (use_compositor_gpu_update (map_option (\<lambda>_. True)))) h"
  by (cases h; cases "scene h"; cases "render (scene h)";
      cases "use_compositor_gpu (render (scene h))")
     (simp_all add: hasattr_def)

lemma probe_compositor_device:
  "(if hasattr (compositor_device (system h))
    then system_update (compositor_device_update (\<lambda>_. Some ''GPU'')) h else h)
   = system_update (compositor_device_update (map_option (\<lambda>_. ''GPU''))) h"
  by (cases h; cases "system h"; cases "compositor_device (system h)")
     (simp_all add: hasattr_def)

lemma probe_node_tree:
  "(if use_nodes (scene h) \<and> node_tree (scene h) \<noteq> None
    then scene_update (node_tree_update (map_option configure_nodes)) h else h)
   = scene_update (node_tree_update
       (\<lambda>t. if use_nodes (scene h) then map_option (map configure_node) t else t)) h"
  by (cases h; cases "scene h"; cases "node_tree (scene h)")
     (simp_all add: configure_nodes_map)

lemmas probe_simps = probe_use_pass_normal probe_use_pass_diffuse_color probe_use_denoising_gpu
  probe_denoising_use_gpu probe_use_compositor_gpu probe_compositor_device probe_node_tree

lemma configurator_raises:
  "strict \<Longrightarrow> use_denoising (cycles (scene h)) = None \<Longrightarrow>
   setup_oidn_denoising strict h = (Raised (AttributeError ''use_denoising''), h)"
  by (simp add: setup_oidn_denoising_def setattr_unprobed_def)



lemma configurator_eq:
  "\<not> (strict \<and> use_denoising (cycles (scene h)) = None) \<Longrightarrow>
   setup_oidn_denoising strict h =
     (Returned (),
      scene_update (node_tree_update
          (\<lambda>t. if use_nodes (scene h) then map_option (map configure_node) t else t))
       (system_update (compositor_device_update (map_option (\<lambda>_. ''GPU'')))
         (scene_update (render_update (use_compositor_gpu_update (map_option (\<lambda>_. True))))
           (scene_update (cycles_update (denoising_use_gpu_update (map_option (\<lambda>_. True))))
             (scene_update (cycles_update (use_denoising_gpu_update (map_option (\<lambda>_. True))))
               (view_layer_update (use_pass_diffuse_color_update (map_option (\<lambda>_. True)))
                 (view_layer_update (use_pass_normal_update (map_option (\<lambda>_. True)))
                   (scene_update (cycles_update (denoising_quality_update (\<lambda>_. ''HIGH'')))
                     (scene_update (cycles_update (denoising_prefilter_update (\<lambda>_. ''ACCURATE'')))
                       (scene_update (cycles_update (denoising_store_passes_update (\<lambda>_. True)))
                         (scene_update (cycles_update (denoiser_update (\<lambda>_. ''OPENIMAGEDENOISE'')))
                           (scene_update (cycles_update (use_denoising_update (\<lambda>_. Some True)))
                             h))))))))))))"
  by (cases "node_tree (scene h)")
     (auto simp add: setup_oidn_denoising_def setattr_unprobed_def probe_simps Let_def
        configure_nodes_map)

lemma setup_gpu_rendering_eq:
  assumes "''cycles'' \<in> addons h"
  shows "setup_gpu_rendering rd h =
     (Returned (if list_ex (\<lambda>d. dev_type d = ''OPTIX'') (rd (rd (devices (cycles_prefs h))))
                then Some ''OPTIX''
                else if list_ex (\<lambda>d. dev_type d = ''CUDA'') (rd (rd (devices (cycles_prefs h))))
                then Some ''CUDA'' else None),
      h\<lparr>scene := (scene h)\<lparr>render := (render (scene h))\<lparr>engine := ''CYCLES''\<rparr>,
                           cycles := (cycles (scene h))\<lparr>device := ''GPU''\<rparr>\<rparr>,
        cycles_prefs := (cycles_prefs h)
          \<lparr>compute_device_type :=
             (if list_ex (\<lambda>d. dev_type d = ''OPTIX'') (rd (rd (devices (cycles_prefs h))))
              then ''OPTIX'' else ''CUDA''),
           devices :=
             (if list_ex (\<lambda>d. dev_type d = ''OPTIX'') (rd (rd (devices (cycles_prefs h))))
              then map (\<lambda>d. d\<lparr>dev_use := (dev_type d = ''OPTIX'')\<rparr>) (rd (rd (devices (cycles_prefs h))))
              else map (\<lambda>d. d\<lparr>dev_use := (dev_type d = ''CUDA'')\<rparr>) (rd (rd (devices (cycles_prefs h)))))\<rparr>\<rparr>)"
proof (cases "list_ex (\<lambda>d. dev_type d = ''OPTIX'') (rd (rd (devices (cycles_prefs h))))")
  case True
  with assms show ?thesis
    by (simp add: setup_gpu_rendering_optix enable_optix_map)
next
  case False
  with assms show ?thesis
    by (simp add: setup_gpu_rendering_fallback enable_cuda_fst enable_cuda_snd)
qed

lemma check_denoising_enabled_cong:
  assumes "use_denoising (cycles (scene a)) = use_denoising (cycles (scene b))"
    and "view_layer a = view_layer b"
    and "use_nodes (scene a) = use_nodes (scene b)"
    and "node_tree (scene a) = node_tree (scene b)"
  shows "check_denoising_enabled a = check_denoising_enabled b"
  using assms by (simp add: check_denoising_enabled_def)

lemma configurator_frame:
  "addons (snd (setup_oidn_denoising strict h)) = addons h \<and>
   cycles_prefs (snd (setup_oidn_denoising strict h)) = cycles_prefs h \<and>
   stdout (snd (setup_oidn_denoising strict h)) = stdout h"
  by (cases "strict \<and> use_denoising (cycles (scene h)) = None")
     (simp_all add: configurator_raises configurator_eq)


section \<open>The orchestrator, stage by stage\<close>

lemma py_print_frame:
  "scene (py_print l h) = scene h" "view_layer (py_print l h) = view_layer h"
  "addons (py_print l h) = addons h" "cycles_prefs (py_print l h) = cycles_prefs h"
  "system (py_print l h) = system h" "stdout (py_print l h) = stdout h @ [l]"
  by (simp_all add: py_print_def)

lemma check_denoising_enabled_py_print:
  "check_denoising_enabled (py_print l h) = check_denoising_enabled h"
  by (rule check_denoising_enabled_cong) (simp_all add: py_print_frame)

lemma gpu_kind_truthy:
  "truthy (if list_ex (\<lambda>d. dev_type d = ''OPTIX'') ds then Some ''OPTIX''
           else if list_ex (\<lambda>d. dev_type d = ''CUDA'') ds then Some ''CUDA'' else None)
   = list_ex (\<lambda>d. dev_type d = ''OPTIX'' \<or> dev_type d = ''CUDA'') ds"
  by (auto simp add: truthy_def list_ex_iff)

lemma orchestrator_not_cycles:
  "engine (render (scene h)) \<noteq> ''CYCLES'' \<Longrightarrow>
   setup_gpu_and_denoiser rd strict h =
     (Returned (), h\<lparr>stdout := stdout h @ [''Cycles not active, skipping setup.'']\<rparr>)"
  by (simp add: setup_gpu_and_denoiser_def py_print_def)

lemma orchestrator_path:
  assumes eng: "engine (render (scene h)) = ''CYCLES''"
    and add: "''cycles'' \<in> addons h"
    and gpu: "list_ex (\<lambda>d. dev_type d = ''OPTIX'' \<or> dev_type d = ''CUDA'') (rd (rd (devices (cycles_prefs h))))"
    and den: "check_denoising_enabled h"
  shows "\<exists>hm. use_denoising (cycles (scene hm)) = use_denoising (cycles (scene h))
      \<and> cycles (scene hm) = (cycles (scene h))\<lparr>device := ''GPU''\<rparr>
      \<and> ''cycles'' \<in> addons hm
      \<and> setup_gpu_and_denoiser rd strict h =
         (case setup_oidn_denoising strict hm of
            (Raised e, h3) \<Rightarrow> (Raised e, h3)
          | (Returned u, h3) \<Rightarrow>
              (Returned (),
               let h4 = (if hasattr (use_auto_tile (cycles (scene h3)))
                         then
                           scene_update (cycles_update (tile_y_update (\<lambda>_. 256)))
                             (scene_update (cycles_update (tile_x_update (\<lambda>_. 256)))
                               (scene_update (cycles_update (use_auto_tile_update (\<lambda>_. Some False))) h3))
                         else h3);
                   h5 = py_print ''=== Final Configuration ==='' h4;
                   h6 = py_print (''Compute Type: '' @ compute_device_type (cycles_prefs h5)) h5;
                   h7 = py_print (''Render Device: '' @ device (cycles (scene h6))) h6;
                   h8 = py_print (''Denoiser: '' @ denoiser (cycles (scene h7)) @ '' (GPU)'') h7;
                   h9 = py_print ''Enabled Devices:'' h8
               in print_enabled (devices (cycles_prefs h9)) h9))"
proof -
  let ?h0 = "py_print ''Configuring GPU rendering...'' h"
  let ?ds = "rd (rd (devices (cycles_prefs h)))"
  let ?k = "if list_ex (\<lambda>d. dev_type d = ''OPTIX'') ?ds then Some ''OPTIX''
            else if list_ex (\<lambda>d. dev_type d = ''CUDA'') ?ds then Some ''CUDA'' else None"
  have add0: "''cycles'' \<in> addons ?h0"
    using add by (simp add: py_print_frame)
  obtain k h1 where g: "setup_gpu_rendering rd ?h0 = (Returned k, h1)"
    and k: "k = ?k"
    and h1: "h1 = snd (setup_gpu_rendering rd ?h0)"
    by (simp add: setup_gpu_rendering_eq [OF add0] py_print_frame)
  have sc1: "cycles (scene h1) = (cycles (scene h))\<lparr>device := ''GPU''\<rparr>"
    and vl1: "view_layer h1 = view_layer h"
    and un1: "use_nodes (scene h1) = use_nodes (scene h)"
    and nt1: "node_tree (scene h1) = node_tree (scene h)"
    and ad1: "addons h1 = addons h"
    unfolding h1 by (simp_all add: setup_gpu_rendering_eq [OF add0] py_print_frame)
  have tk: "truthy k"
    using gpu unfolding k by (simp only: gpu_kind_truthy)
  have den1: "check_denoising_enabled h1"
    using den check_denoising_enabled_cong [of h1 h] by (simp add: sc1 vl1 un1 nt1)
  let ?hm = "py_print ''Denoising enabled: forcing OIDN configuration...''
               (py_print (''GPU setup complete: '' @ str_of k) h1)"
  have "setup_gpu_and_denoiser rd strict h =
         (case setup_oidn_denoising strict ?hm of
            (Raised e, h3) \<Rightarrow> (Raised e, h3)
          | (Returned u, h3) \<Rightarrow>
              (Returned (),
               let h4 = (if hasattr (use_auto_tile (cycles (scene h3)))
                         then
                           scene_update (cycles_update (tile_y_update (\<lambda>_. 256)))
                             (scene_update (cycles_update (tile_x_update (\<lambda>_. 256)))
                               (scene_update (cycles_update (use_auto_tile_update (\<lambda>_. Some False))) h3))
                         else h3);
                   h5 = py_print ''=== Final Configuration ==='' h4;
                   h6 = py_print (''Compute Type: '' @ compute_device_type (cycles_prefs h5)) h5;
                   h7 = py_print (''Render Device: '' @ device (cycles (scene h6))) h6;
                   h8 = py_print (''Denoiser: '' @ denoiser (cycles (scene h7)) @ '' (GPU)'') h7;
                   h9 = py_print ''Enabled Devices:'' h8
               in print_enabled (devices (cycles_prefs h9)) h9))"
  proof (cases "setup_oidn_denoising strict ?hm")
    case (Pair r h3)
    then have "addons h3 = addons ?hm"
      using configurator_frame [of strict ?hm] by simp
    then have a3: "''cycles'' \<in> addons h3"
      using add by (simp add: py_print_frame ad1)
    from Pair show ?thesis
      unfolding setup_gpu_and_denoiser_def
      by (cases r)
         (simp_all add: eng g tk den1 check_denoising_enabled_py_print a3 Let_def py_print_frame)
  qed
  moreover have "use_denoising (cycles (scene ?hm)) = use_denoising (cycles (scene h))"
    "cycles (scene ?hm) = (cycles (scene h))\<lparr>device := ''GPU''\<rparr>" "''cycles'' \<in> addons ?hm"
    using add by (simp_all add: py_print_frame sc1 ad1)
  ultimately show ?thesis by blast
qed

lemma orchestrator_raises:
  assumes "engine (render (scene h)) = ''CYCLES''"
    and "''cycles'' \<in> addons h"
    and "list_ex (\<lambda>d. dev_type d = ''OPTIX'' \<or> dev_type d = ''CUDA'') (rd (rd (devices (cycles_prefs h))))"
    and "check_denoising_enabled h"
    and "strict" and "use_denoising (cycles (scene h)) = None"
  shows "fst (setup_gpu_and_denoiser rd strict h) = Raised (AttributeError ''use_denoising'')"
proof -
  from orchestrator_path [where rd = rd and h = h and strict = strict, OF assms(1-4)] obtain hm
    where "use_denoising (cycles (scene hm)) = use_denoising (cycles (scene h))"
      and "setup_gpu_and_denoiser rd strict h =
         (case setup_oidn_denoising strict hm of
            (Raised e, h3) \<Rightarrow> (Raised e, h3)
          | (Returned u, h3) \<Rightarrow>
              (Returned (),
               let h4 = (if hasattr (use_auto_tile (cycles (scene h3)))
                         then
                           scene_update (cycles_update (tile_y_update (\<lambda>_. 256)))
                             (scene_update (cycles_update (tile_x_update (\<lambda>_. 256)))
                               (scene_update (cycles_update (use_auto_tile_update (\<lambda>_. Some False))) h3))
                         else h3);
                   h5 = py_print ''=== Final Configuration ==='' h4;
                   h6 = py_print (''Compute Type: '' @ compute_device_type (cycles_prefs h5)) h5;
                   h7 = py_print (''Render Device: '' @ device (cycles (scene h6))) h6;
                   h8 = py_print (''Denoiser: '' @ denoiser (cycles (scene h7)) @ '' (GPU)'') h7;
                   h9 = py_print ''Enabled Devices:'' h8
               in print_enabled (devices (cycles_prefs h9)) h9))"
    by blast
  with assms(5,6) show ?thesis
    by (simp add: configurator_raises)
qed


section \<open>Claims about the denoiser configurator\<close>




section \<open>Claims about the denoising detector\<close>




section \<open>Claims about the device selector\<close>

text \<open>
  In the three claims below the device list of a host state is the collection
  \<^verbatim>\<open>prefs.devices\<close> as the selector sees it, that is after the two calls of
  \<^verbatim>\<open>refresh_devices\<close> (line 14, and line 7 inside \<^verbatim>\<open>test_optix_availability\<close>); the subscript
  \<^verbatim>\<open>addons['cycles']\<close> must succeed for a device list to exist at all.

  Claim C3: when the device list contains at least one OPTIX device,
  \<^verbatim>\<open>setup_gpu_rendering\<close> sets the use flag to true exactly on the OPTIX devices and to false
  on every other device, sets the compute backend to OPTIX, and returns \<^verbatim>\<open>'OPTIX'\<close>.
\<close>

theorem optix_preferred:
  assumes "''cycles'' \<in> addons h"
    and "list_ex (\<lambda>d. dev_type d = ''OPTIX'') (rd (rd (devices (cycles_prefs h))))"
  shows "fst (setup_gpu_rendering rd h) = Returned (Some ''OPTIX'')
     \<and> compute_device_type (cycles_prefs (snd (setup_gpu_rendering rd h))) = ''OPTIX''
     \<and> devices (cycles_prefs (snd (setup_gpu_rendering rd h)))
         = map (\<lambda>d. d\<lparr>dev_use := (dev_type d = ''OPTIX'')\<rparr>) (rd (rd (devices (cycles_prefs h))))
     \<and> (\<forall>d \<in> set (devices (cycles_prefs (snd (setup_gpu_rendering rd h)))).
           dev_use d = (dev_type d = ''OPTIX''))"
  using assms by (auto simp add: setup_gpu_rendering_optix enable_optix_map)

text \<open>
  Claim C3 on a CPU, a CUDA and an OPTIX device: only the third one ends up in use.
\<close>

theorem optix_preferred_witness:
  "''cycles'' \<in> addons (example_host ''CYCLES'' [cpu_device, cuda_device, optix_device] None False None)
   \<and> list_ex (\<lambda>d. dev_type d = ''OPTIX'') [cpu_device, cuda_device, optix_device]
   \<and> fst (setup_gpu_rendering (\<lambda>ds. ds)
           (example_host ''CYCLES'' [cpu_device, cuda_device, optix_device] None False None))
       = Returned (Some ''OPTIX'')
   \<and> compute_device_type (cycles_prefs (snd (setup_gpu_rendering (\<lambda>ds. ds)
           (example_host ''CYCLES'' [cpu_device, cuda_device, optix_device] None False None))))
       = ''OPTIX''
   \<and> map dev_use (devices (cycles_prefs (snd (setup_gpu_rendering (\<lambda>ds. ds)
           (example_host ''CYCLES'' [cpu_device, cuda_device, optix_device] None False None)))))
       = [False, False, True]"
proof -
  let ?h = "example_host ''CYCLES'' [cpu_device, cuda_device, optix_device] None False None"
  have a: "''cycles'' \<in> addons ?h"
    by (simp add: example_defs)
  have b: "list_ex (\<lambda>d. dev_type d = ''OPTIX'') ((\<lambda>ds. ds) ((\<lambda>ds. ds) (devices (cycles_prefs ?h))))"
    by (simp add: example_defs)
  from optix_preferred [where h = ?h and rd = "\<lambda>ds. ds", OF a b] a b show ?thesis
    by (simp add: example_defs)
qed

text \<open>
  Claim C4: when the device list contains no OPTIX device but at least one CUDA device,
  \<^verbatim>\<open>setup_gpu_rendering\<close> sets the use flag to true exactly on the CUDA devices, sets the
  compute backend to CUDA, and returns \<^verbatim>\<open>'CUDA'\<close>.
\<close>

theorem cuda_fallback:
  assumes "''cycles'' \<in> addons h"
    and "\<not> list_ex (\<lambda>d. dev_type d = ''OPTIX'') (rd (rd (devices (cycles_prefs h))))"
    and "list_ex (\<lambda>d. dev_type d = ''CUDA'') (rd (rd (devices (cycles_prefs h))))"
  shows "fst (setup_gpu_rendering rd h) = Returned (Some ''CUDA'')
     \<and> compute_device_type (cycles_prefs (snd (setup_gpu_rendering rd h))) = ''CUDA''
     \<and> devices (cycles_prefs (snd (setup_gpu_rendering rd h)))
         = map (\<lambda>d. d\<lparr>dev_use := (dev_type d = ''CUDA'')\<rparr>) (rd (rd (devices (cycles_prefs h))))
     \<and> (\<forall>d \<in> set (devices (cycles_prefs (snd (setup_gpu_rendering rd h)))).
           dev_use d = (dev_type d = ''CUDA''))"
  using assms
  by (auto simp add: setup_gpu_rendering_fallback enable_cuda_fst enable_cuda_snd)

text \<open>
  Claim C4 on two CUDA devices around a CPU device, which starts out in use.
\<close>

theorem cuda_fallback_witness:
  "''cycles'' \<in> addons (example_host ''CYCLES'' [cuda_device, cpu_device, cuda_device] None False None)
   \<and> \<not> list_ex (\<lambda>d. dev_type d = ''OPTIX'') [cuda_device, cpu_device, cuda_device]
   \<and> list_ex (\<lambda>d. dev_type d = ''CUDA'') [cuda_device, cpu_device, cuda_device]
   \<and> fst (setup_gpu_rendering (\<lambda>ds. ds)
           (example_host ''CYCLES'' [cuda_device, cpu_device, cuda_device] None False None))
       = Returned (Some ''CUDA'')
   \<and> compute_device_type (cycles_prefs (snd (setup_gpu_rendering (\<lambda>ds. ds)
           (example_host ''CYCLES'' [cuda_device, cpu_device, cuda_device] None False None))))
       = ''CUDA''
   \<and> map dev_use (devices (cycles_prefs (snd (setup_gpu_rendering (\<lambda>ds. ds)
           (example_host ''CYCLES'' [cuda_device, cpu_device, cuda_device] None False None)))))
       = [True, False, True]"
proof -
  let ?h = "example_host ''CYCLES'' [cuda_device, cpu_device, cuda_device] None False None"
  have a: "''cycles'' \<in> addons ?h"
    by (simp add: example_defs)
  have b: "\<not> list_ex (\<lambda>d. dev_type d = ''OPTIX'') ((\<lambda>ds. ds) ((\<lambda>ds. ds) (devices (cycles_prefs ?h))))"
    by (simp add: example_defs)
  have c: "list_ex (\<lambda>d. dev_type d = ''CUDA'') ((\<lambda>ds. ds) ((\<lambda>ds. ds) (devices (cycles_prefs ?h))))"
    by (simp add: example_defs)
  from cuda_fallback [where h = ?h and rd = "\<lambda>ds. ds", OF a b c] a b c show ?thesis
    by (simp add: example_defs)
qed

text \<open>
  Claim C5: when the device list contains neither an OPTIX nor a CUDA device,
  \<^verbatim>\<open>setup_gpu_rendering\<close> returns \<^verbatim>\<open>None\<close>, every device's use flag is false afterwards, and
  the compute backend is the fallback kind CUDA.
\<close>

theorem no_gpu_found:
  assumes "''cycles'' \<in> addons h"
    and "\<not> list_ex (\<lambda>d. dev_type d = ''OPTIX'') (rd (rd (devices (cycles_prefs h))))"
    and "\<not> list_ex (\<lambda>d. dev_type d = ''CUDA'') (rd (rd (devices (cycles_prefs h))))"
  shows "fst (setup_gpu_rendering rd h) = Returned None
     \<and> compute_device_type (cycles_prefs (snd (setup_gpu_rendering rd h))) = ''CUDA''
     \<and> devices (cycles_prefs (snd (setup_gpu_rendering rd h)))
         = map (\<lambda>d. d\<lparr>dev_use := False\<rparr>) (rd (rd (devices (cycles_prefs h))))
     \<and> (\<forall>d \<in> set (devices (cycles_prefs (snd (setup_gpu_rendering rd h)))). \<not> dev_use d)"
  using assms
  by (auto simp add: setup_gpu_rendering_fallback enable_cuda_fst enable_cuda_snd list_ex_iff)

text \<open>
  Claim C5 on a lone CPU device that starts out in use.
\<close>

theorem no_gpu_found_witness:
  "''cycles'' \<in> addons (example_host ''CYCLES'' [cpu_device] None False None)
   \<and> \<not> list_ex (\<lambda>d. dev_type d = ''OPTIX'') [cpu_device]
   \<and> \<not> list_ex (\<lambda>d. dev_type d = ''CUDA'') [cpu_device]
   \<and> fst (setup_gpu_rendering (\<lambda>ds. ds) (example_host ''CYCLES'' [cpu_device] None False None))
       = Returned None
   \<and> compute_device_type (cycles_prefs (snd (setup_gpu_rendering (\<lambda>ds. ds)
           (example_host ''CYCLES'' [cpu_device] None False None)))) = ''CUDA''
   \<and> map dev_use (devices (cycles_prefs (snd (setup_gpu_rendering (\<lambda>ds. ds)
           (example_host ''CYCLES'' [cpu_device] None False None))))) = [False]"
proof -
  let ?h = "example_host ''CYCLES'' [cpu_device] None False None"
  have a: "''cycles'' \<in> addons ?h"
    by (simp add: example_defs)
  have b: "\<not> list_ex (\<lambda>d. dev_type d = ''OPTIX'') ((\<lambda>ds. ds) ((\<lambda>ds. ds) (devices (cycles_prefs ?h))))"
    by (simp add: example_defs)
  have c: "\<not> list_ex (\<lambda>d. dev_type d = ''CUDA'') ((\<lambda>ds. ds) ((\<lambda>ds. ds) (devices (cycles_prefs ?h))))"
    by (simp add: example_defs)
  from no_gpu_found [where h = ?h and rd = "\<lambda>ds. ds", OF a b c] a b c show ?thesis
    by (simp add: example_defs)
qed

text \<open>
  Claim C9: after \<^verbatim>\<open>setup_gpu_rendering\<close> returns, in every branch, the scene's render
  engine is CYCLES and the scene's cycles device is GPU. The selector returns whenever
  \<^verbatim>\<open>addons['cycles']\<close> exists; otherwise line 13 raises \<^verbatim>\<open>KeyError\<close> before any write.
\<close>

theorem engine_and_device_always_set:
  "(''cycles'' \<in> addons h \<longrightarrow> (\<exists>r. fst (setup_gpu_rendering rd h) = Returned r))
   \<and> (\<forall>r. fst (setup_gpu_rendering rd h) = Returned r \<longrightarrow>
          engine (render (scene (snd (setup_gpu_rendering rd h)))) = ''CYCLES''
          \<and> device (cycles (scene (snd (setup_gpu_rendering rd h)))) = ''GPU'')"
proof (cases "''cycles'' \<in> addons h")
  case True
  then show ?thesis
    by (simp add: setup_gpu_rendering_eq)
next
  case False
  then show ?thesis
    by (simp add: setup_gpu_rendering_def)
qed

text \<open>
  Claim C9 on the branch that returns \<^verbatim>\<open>None\<close>: the engine was another one and the device
  was the CPU.
\<close>

theorem engine_and_device_always_set_witness:
  "''cycles'' \<in> addons (example_host ''BLENDER_EEVEE'' [cpu_device] None False None)
   \<and> engine (render (scene (example_host ''BLENDER_EEVEE'' [cpu_device] None False None)))
       = ''BLENDER_EEVEE''
   \<and> device (cycles (scene (example_host ''BLENDER_EEVEE'' [cpu_device] None False None))) = ''CPU''
   \<and> fst (setup_gpu_rendering (\<lambda>ds. ds) (example_host ''BLENDER_EEVEE'' [cpu_device] None False None))
       = Returned None
   \<and> engine (render (scene (snd (setup_gpu_rendering (\<lambda>ds. ds)
         (example_host ''BLENDER_EEVEE'' [cpu_device] None False None))))) = ''CYCLES''
   \<and> device (cycles (scene (snd (setup_gpu_rendering (\<lambda>ds. ds)
         (example_host ''BLENDER_EEVEE'' [cpu_device] None False None))))) = ''GPU''"
proof -
  let ?h = "example_host ''BLENDER_EEVEE'' [cpu_device] None False None"
  have a: "''cycles'' \<in> addons ?h"
    by (simp add: example_defs)
  have r: "fst (setup_gpu_rendering (\<lambda>ds. ds) ?h) = Returned None"
    by (simp add: setup_gpu_rendering_eq [OF a]) (simp add: example_defs)
  from engine_and_device_always_set [of ?h "\<lambda>ds. ds"] a r show ?thesis
    by (simp add: example_defs)
qed

section \<open>Claims about the orchestrator and the entry point\<close>

text \<open>
  Claim C6: when the active render engine is not CYCLES, \<^verbatim>\<open>setup_gpu_and_denoiser\<close>
  returns at once without raising and writes nothing: scene, view layer, add-on table,
  device preferences and system preferences are what they were. Its only effect is the
  line it prints.
\<close>

theorem non_cycles_engine_untouched:
  assumes "engine (render (scene h)) \<noteq> ''CYCLES''"
  shows "setup_gpu_and_denoiser rd strict h =
           (Returned (), h\<lparr>stdout := stdout h @ [''Cycles not active, skipping setup.'']\<rparr>)
     \<and> scene (snd (setup_gpu_and_denoiser rd strict h)) = scene h
     \<and> view_layer (snd (setup_gpu_and_denoiser rd strict h)) = view_layer h
     \<and> addons (snd (setup_gpu_and_denoiser rd strict h)) = addons h
     \<and> cycles_prefs (snd (setup_gpu_and_denoiser rd strict h)) = cycles_prefs h
     \<and> system (snd (setup_gpu_and_denoiser rd strict h)) = system h"
  using assms by (simp add: orchestrator_not_cycles)

text \<open>
  Claim C6 on a host state that has an OPTIX device and denoising enabled, but another
  engine.
\<close>

theorem non_cycles_engine_untouched_witness:
  "engine (render (scene (example_host ''BLENDER_EEVEE'' [cpu_device, optix_device] (Some True) True (Some True))))
     \<noteq> ''CYCLES''
   \<and> setup_gpu_and_denoiser (\<lambda>ds. ds) True
        (example_host ''BLENDER_EEVEE'' [cpu_device, optix_device] (Some True) True (Some True))
      = (Returned (),
         (example_host ''BLENDER_EEVEE'' [cpu_device, optix_device] (Some True) True (Some True))
           \<lparr>stdout := [''Cycles not active, skipping setup.'']\<rparr>)"
proof -
  let ?h = "example_host ''BLENDER_EEVEE'' [cpu_device, optix_device] (Some True) True (Some True)"
  have a: "engine (render (scene ?h)) \<noteq> ''CYCLES''"
    by (simp add: example_host_def)
  have b: "stdout ?h = []"
    by (simp add: example_host_def)
  from non_cycles_engine_untouched [OF a, of "\<lambda>ds. ds" True] a show ?thesis
    by (simp add: b)
qed





text \<open>
  Claim C8: run as the entry point, the program prints the error message and exits with
  status 1 when the orchestrator raises, and prints a success line and exits with status 0
  when the orchestrator returns.
\<close>

theorem main_exit_status:
  "(\<forall>e. fst (setup_gpu_and_denoiser rd strict h) = Raised e \<longrightarrow>
        snd (main rd strict h) = 1
        \<and> stdout (fst (main rd strict h))
            = stdout (snd (setup_gpu_and_denoiser rd strict h)) @ [''Error: '' @ message e])
   \<and> (fst (setup_gpu_and_denoiser rd strict h) = Returned () \<longrightarrow>
        snd (main rd strict h) = 0
        \<and> stdout (fst (main rd strict h))
            = stdout (snd (setup_gpu_and_denoiser rd strict h)) @ [''Setup completed successfully.''])"
  by (cases "setup_gpu_and_denoiser rd strict h"; cases "fst (setup_gpu_and_denoiser rd strict h)")
     (simp_all add: main_def py_print_frame)

text \<open>
  Claim C8 on a run that raises (\<^verbatim>\<open>AttributeError\<close> from line 56 on a host that rejects
  unknown attributes) and on a run that returns (another engine is active).
\<close>

theorem main_exit_status_witness:
  "fst (setup_gpu_and_denoiser (\<lambda>ds. ds) True (example_host ''CYCLES'' [cuda_device] None True None))
     = Raised (AttributeError ''use_denoising'')
   \<and> snd (main (\<lambda>ds. ds) True (example_host ''CYCLES'' [cuda_device] None True None)) = 1
   \<and> last (stdout (fst (main (\<lambda>ds. ds) True (example_host ''CYCLES'' [cuda_device] None True None))))
       = ''Error: use_denoising''
   \<and> fst (setup_gpu_and_denoiser (\<lambda>ds. ds) True (example_host ''BLENDER_EEVEE'' [cuda_device] None True None))
       = Returned ()
   \<and> snd (main (\<lambda>ds. ds) True (example_host ''BLENDER_EEVEE'' [cuda_device] None True None)) = 0
   \<and> stdout (fst (main (\<lambda>ds. ds) True (example_host ''BLENDER_EEVEE'' [cuda_device] None True None)))
       = [''Cycles not active, skipping setup.'', ''Setup completed successfully.'']"
proof -
  let ?h = "example_host ''CYCLES'' [cuda_device] None True None"
  let ?g = "example_host ''BLENDER_EEVEE'' [cuda_device] None True None"
  have r: "fst (setup_gpu_and_denoiser (\<lambda>ds. ds) True ?h) = Raised (AttributeError ''use_denoising'')"
    by (rule orchestrator_raises)
       (simp_all add: check_denoising_enabled_def getattr_default_def example_defs)
  have s: "setup_gpu_and_denoiser (\<lambda>ds. ds) True ?g
      = (Returned (), ?g\<lparr>stdout := stdout ?g @ [''Cycles not active, skipping setup.'']\<rparr>)"
    by (rule orchestrator_not_cycles) (simp add: example_host_def)
  have t: "stdout ?g = []"
    by (simp add: example_host_def)
  from main_exit_status [of "\<lambda>ds. ds" True ?h] main_exit_status [of "\<lambda>ds. ds" True ?g] r s
  show ?thesis
    by (simp add: message_def t)
qed

end
